theory Spec2Isabelle
  imports Main "HOL-Library.Word"
begin

section \<open>Python values, exceptions and the kernel32 boundary\<close>

text \<open>
  The program is Python over ctypes bindings of kernel32 (\<^verbatim>\<open>shims.py\<close>). Python integers
  are unbounded (\<open>int\<close>); a \<^verbatim>\<open>wintypes.HANDLE\<close> value is an integer or Python's
  \<^verbatim>\<open>None\<close>. Every \<^verbatim>\<open>raise\<close> is a value of \<open>error\<close>, including the exceptions that
  CPython (64-bit) and ctypes raise themselves: \<^verbatim>\<open>bytes(n)\<close> outside the index range or
  beyond what can be allocated, \<^verbatim>\<open>ctypes.byref\<close> of an object that is no ctypes
  instance, \<^verbatim>\<open>.value\<close> of a plain integer, and an index outside a ctypes array.
\<close>

type_synonym byte = "8 word"
type_synonym HANDLE = "int option"

datatype error =
    AttributeError string
  | UnboundLocalError string
  | ZeroDivisionError
  | ValueError string
  | WinError int
  | TypeError string
  | OverflowError string
  | MemoryError
  | IndexError string

text \<open>Python's \<^verbatim>\<open>str\<close> of an integer, for the f-string of \<^verbatim>\<open>read_clusters\<close>.\<close>

fun str_nat :: "nat \<Rightarrow> string" where
  "str_nat n =
     (if n < 10 then [''0123456789'' ! n]
      else str_nat (n div 10) @ [''0123456789'' ! (n mod 10)])"

declare str_nat.simps [simp del]

definition str :: "int \<Rightarrow> string" where
  "str i = (if i < 0 then CHR ''-'' # str_nat (nat (- i)) else str_nat (nat i))"

subsection \<open>Structures of \<^verbatim>\<open>models.py\<close>\<close>

record DiskGeometry =
  Cylinders :: int
  MediaType :: int
  TracksPerCylinder :: int
  SectorsPerTrack :: int
  BytesPerSector :: int

record GetLengthInformation =
  Length :: int

record StartingVcnInputBuffer =
  InputStartingVcn :: int

record RetrievalPointerExtent =
  NextVcn :: int
  Lcn :: int

text \<open>
  \<^verbatim>\<open>RetrievalPointersBuffer\<close> ends in a flexible array: the code reads record \<open>i\<close> by
  offset arithmetic on the buffer, so the records are a function of the index.
\<close>

record RetrievalPointersBuffer =
  ExtentCount :: nat
  StartingVcn :: int
  Extents :: "nat \<Rightarrow> RetrievalPointerExtent"

record FileExtent =
  vcn :: int
  lcn :: int
  size :: int

subsection \<open>The operating system\<close>

text \<open>
  The kernel32 entry points bound in \<^verbatim>\<open>shims.py\<close>, over an arbitrary device state \<open>'d\<close>.
  \<^verbatim>\<open>DeviceIoControl\<close> is called with three control codes, each with its own output
  structure, so the boundary has one entry per control code. \<open>k32_ReadFile\<close> yields the
  success flag and the bytes the device delivers; \<open>k32_SetFilePointer\<close> yields the
  \<^verbatim>\<open>DWORD\<close> it returns; \<open>k32_GetLastError\<close> is the status \<^verbatim>\<open>ctypes.get_last_error()\<close>
  reads. The last entry is the interpreter's allocator: \<open>interp_alloc d n\<close> tells
  whether a buffer of \<open>n\<close> bytes can be allocated, and if not, whether the interpreter
  is out of memory (\<^verbatim>\<open>MemoryError\<close>) or the size is too close to the index limit
  (\<^verbatim>\<open>OverflowError\<close>).
\<close>

datatype allocation = Allocated | OutOfMemory | TooLarge

record 'd kernel32 =
  k32_CreateFileW :: "'d \<Rightarrow> string \<Rightarrow> HANDLE \<times> 'd"
  k32_GetDiskFreeSpaceA :: "'d \<Rightarrow> string \<Rightarrow> (bool \<times> int \<times> int) \<times> 'd"
  k32_DeviceIoControl_geometry :: "'d \<Rightarrow> HANDLE \<Rightarrow> (bool \<times> DiskGeometry) \<times> 'd"
  k32_DeviceIoControl_length :: "'d \<Rightarrow> HANDLE \<Rightarrow> (bool \<times> GetLengthInformation) \<times> 'd"
  k32_DeviceIoControl_pointers ::
    "'d \<Rightarrow> HANDLE \<Rightarrow> StartingVcnInputBuffer \<Rightarrow> int \<Rightarrow> (bool \<times> RetrievalPointersBuffer \<times> nat) \<times> 'd"
  k32_CloseHandle :: "'d \<Rightarrow> HANDLE \<Rightarrow> bool \<times> 'd"
  k32_SetFilePointer :: "'d \<Rightarrow> HANDLE \<Rightarrow> int \<Rightarrow> nat \<times> 'd"
  k32_ReadFile :: "'d \<Rightarrow> HANDLE \<Rightarrow> int \<Rightarrow> (bool \<times> byte list) \<times> 'd"
  k32_GetLastError :: "'d \<Rightarrow> int"
  interp_alloc :: "'d \<Rightarrow> int \<Rightarrow> allocation"

text \<open>Every call that reaches the operating system is recorded, with what it returned.\<close>

datatype call =
    CreateFile_call string HANDLE
  | GetFreeDiskSpace_call string bool
  | DeviceIoControl_call HANDLE int int bool
  | CloseHandle_call HANDLE bool
  | SetFilePointer_call HANDLE int nat
  | ReadFile_call HANDLE int bool nat

record 'd world =
  device :: 'd
  calls :: "call list"

definition get_last_error :: "'d kernel32 \<Rightarrow> 'd world \<Rightarrow> int" where
  "get_last_error os w = k32_GetLastError os (device w)"

text \<open>
  \<^verbatim>\<open>bytes(n)\<close>: a zero-filled buffer of \<open>n\<close> bytes. A count that does not fit the
  interpreter's index type (\<open>- 2 ^ 63 \<le> n < 2 ^ 63\<close>) raises \<^verbatim>\<open>OverflowError\<close>, a negative
  count raises \<^verbatim>\<open>ValueError\<close>, and a count that cannot be allocated raises what the
  allocator reports.
\<close>

definition bytes :: "'d kernel32 \<Rightarrow> 'd world \<Rightarrow> int \<Rightarrow> error + byte list" where
  "bytes os w n =
     (if n < - (2 ^ 63) \<or> 2 ^ 63 \<le> n then
        Inl (OverflowError ''cannot fit int into an index-sized integer'')
      else if n < 0 then Inl (ValueError ''negative count'')
      else (case interp_alloc os (device w) n of
              OutOfMemory \<Rightarrow> Inl MemoryError
            | TooLarge \<Rightarrow> Inl (OverflowError ''byte string is too large'')
            | Allocated \<Rightarrow> Inr (replicate (nat n) 0)))"

text \<open>
  \<^verbatim>\<open>ctypes.byref(obj)\<close>: a reference to a ctypes instance; any other object, such as a
  \<^verbatim>\<open>bytes\<close> object, raises \<^verbatim>\<open>TypeError\<close>.
\<close>

datatype 'a pyobject = PyBytes "byte list" | CInstance 'a

definition byref :: "'a pyobject \<Rightarrow> error + 'a" where
  "byref obj =
     (case obj of
        PyBytes b \<Rightarrow> Inl (TypeError ''byref() argument must be a ctypes instance, not bytes'')
      | CInstance c \<Rightarrow> Inr c)"

text \<open>
  A field of simple ctypes type read from a structure comes back as a plain Python
  integer, which has no attribute \<^verbatim>\<open>value\<close>; only a ctypes instance has one.
\<close>

datatype pyvalue = PyInt int | CSimple int

definition getattr_value :: "pyvalue \<Rightarrow> error + int" where
  "getattr_value v =
     (case v of
        PyInt n \<Rightarrow> Inl (AttributeError ''value'')
      | CSimple n \<Rightarrow> Inr n)"





definition DeviceIoControl_pointers ::
  "'d kernel32 \<Rightarrow> 'd world \<Rightarrow> HANDLE \<Rightarrow> StartingVcnInputBuffer \<Rightarrow> int \<Rightarrow>
     (bool \<times> RetrievalPointersBuffer \<times> nat) \<times> 'd world" where
  "DeviceIoControl_pointers os w h inp out_size =
     (case k32_DeviceIoControl_pointers os (device w) h inp out_size of
        ((ok, buf, bytes_returned), d') \<Rightarrow>
          ((ok, buf, bytes_returned),
           \<lparr>device = d', calls = calls w @ [DeviceIoControl_call h 0x00090073 out_size ok]\<rparr>))"

definition CloseHandle :: "'d kernel32 \<Rightarrow> 'd world \<Rightarrow> HANDLE \<Rightarrow> bool \<times> 'd world" where
  "CloseHandle os w h =
     (case k32_CloseHandle os (device w) h of
        (ok, d') \<Rightarrow> (ok, \<lparr>device = d', calls = calls w @ [CloseHandle_call h ok]\<rparr>))"

definition SetFilePointer :: "'d kernel32 \<Rightarrow> 'd world \<Rightarrow> HANDLE \<Rightarrow> int \<Rightarrow> nat \<times> 'd world" where
  "SetFilePointer os w h off =
     (case k32_SetFilePointer os (device w) h off of
        (r, d') \<Rightarrow> (r, \<lparr>device = d', calls = calls w @ [SetFilePointer_call h off r]\<rparr>))"

text \<open>
  \<^verbatim>\<open>ReadFile(handle, byref(data), n, byref(bytes_read), None)\<close>: the device stores at most
  \<open>n\<close> bytes at the start of the buffer and reports how many; the rest of the buffer is
  left as it was.
\<close>

definition ReadFile ::
  "'d kernel32 \<Rightarrow> 'd world \<Rightarrow> HANDLE \<Rightarrow> byte list \<Rightarrow> int \<Rightarrow> (bool \<times> byte list \<times> nat) \<times> 'd world" where
  "ReadFile os w h buf n =
     (case k32_ReadFile os (device w) h n of
        ((ok, payload), d') \<Rightarrow>
          (let stored = take (min (nat n) (length buf)) payload;
               bytes_read = length stored
           in ((ok, stored @ drop bytes_read buf, bytes_read),
               \<lparr>device = d', calls = calls w @ [ReadFile_call h n ok bytes_read]\<rparr>)))"

section \<open>\<^verbatim>\<open>NTFSDisk\<close> (\<^verbatim>\<open>ntfs.py\<close>)\<close>

text \<open>An \<^verbatim>\<open>NTFSDisk\<close> object all of whose attributes are assigned.\<close>

record NTFSDisk =
  disk_path :: string
  handle :: HANDLE
  size_bytes :: int
  cluster_size :: int
  sector_size :: int
  sectors_per_cluster :: int
  cluster_count :: int
  sector_count :: int
  current_position :: int

subsection \<open>\<^verbatim>\<open>read_clusters\<close>\<close>

text \<open>
  The result is the returned buffer or the exception, with the object and the world as
  the call leaves them. The arguments of the \<^verbatim>\<open>ReadFile\<close> call are evaluated before the
  call, \<^verbatim>\<open>ctypes.byref(data)\<close> among them, where \<open>data\<close> is the \<^verbatim>\<open>bytes\<close> object.
\<close>

definition read_clusters ::
  "'d kernel32 \<Rightarrow> 'd world \<Rightarrow> NTFSDisk \<Rightarrow> int \<Rightarrow> int \<Rightarrow> (error + byte list) \<times> NTFSDisk \<times> 'd world" where
  "read_clusters os w self cluster clusters =
     (let expected_length = cluster_size self * clusters in
      case bytes os w expected_length of
        Inl e \<Rightarrow> (Inl e, self, w)
      | Inr data \<Rightarrow>
     (let sector = cluster * sectors_per_cluster self;
          sectors = clusters * sectors_per_cluster self
      in
      if clusters \<le> 0 then
        (Inl (ValueError ''Number of clusters must be greater than 0''), self, w)
      else if cluster < 0 \<or> cluster + clusters > cluster_count self then
        (Inl (ValueError ''Invalid cluster range, out of bounds''), self, w)
      else if sectors \<le> 0 then
        (Inl (ValueError ''Number of sectors must be greater than 0''), self, w)
      else if sector < 0 \<or> sector + sectors > sector_count self then
        (Inl (ValueError ''Invalid sector range, out of bounds''), self, w)
      else if int (length data) < sectors * sector_size self then
        (Inl (ValueError ''Buffer is too small to hold the data''), self, w)
      else
     (let offset_bytes = sector * sector_size self;
          read = (\<lambda>self w.
            case byref (PyBytes data :: byte list pyobject) of
              Inl e \<Rightarrow> (Inl e, self, w)
            | Inr buffer \<Rightarrow>
           (case ReadFile os w (handle self) buffer (cluster_size self * clusters) of
              ((ok, data', bytes_read), w') \<Rightarrow>
                if \<not> ok then (Inl (WinError (get_last_error os w')), self, w')
                else if int bytes_read \<noteq> expected_length then
                  (Inl (ValueError (''Expected '' @ str expected_length @ '' bytes, but got ''
                      @ str (int bytes_read) @ '' bytes'')), self, w')
                else (Inr data', self, w')))
      in
      if current_position self \<noteq> offset_bytes then
        (case SetFilePointer os w (handle self) offset_bytes of
           (r, w') \<Rightarrow>
             if r = 0 then (Inl (WinError (get_last_error os w')), self, w')
             else read (self\<lparr>current_position := offset_bytes\<rparr>) w')
      else read self w)))"

subsection \<open>\<^verbatim>\<open>get_retrieval_pointers\<close>\<close>

text \<open>
  The \<^verbatim>\<open>while True\<close> loop. \<open>chunk_size\<close> is never reassigned; the local
  \<open>output_buffer_size\<close> is \<open>None\<close> as long as no assignment has bound it. The loop may
  run forever, so not returning is the value \<open>None\<close>.
\<close>

partial_function (option) query_retrieval_pointers ::
  "'d kernel32 \<Rightarrow> HANDLE \<Rightarrow> StartingVcnInputBuffer \<Rightarrow> int \<Rightarrow> int option \<Rightarrow> 'd world \<Rightarrow>
     ((error + RetrievalPointersBuffer) \<times> 'd world) option" where
  "query_retrieval_pointers os file_handle input_buffer chunk_size output_buffer_size w =
     (case DeviceIoControl_pointers os w file_handle input_buffer chunk_size of
        ((ok, output_buffer, bytes_returned), w') \<Rightarrow>
          if ok then Some (Inr output_buffer, w')
          else
            (let last_error = get_last_error os w' in
             if last_error = 234 then
               (case output_buffer_size of
                  None \<Rightarrow> Some (Inl (UnboundLocalError ''output_buffer_size''), w')
                | Some s \<Rightarrow>
                    query_retrieval_pointers os file_handle input_buffer chunk_size
                      (Some (max (s * 2) (int bytes_returned))) w')
             else Some (Inl (WinError last_error), w')))"

text \<open>
  \<^verbatim>\<open>pointers.Extents[j]\<close>: the field is declared as an array of one record, and ctypes
  checks the index against that length.
\<close>

definition Extents_getitem ::
  "RetrievalPointersBuffer \<Rightarrow> nat \<Rightarrow> error + RetrievalPointerExtent" where
  "Extents_getitem pointers j =
     (if j < 1 then Inr (Extents pointers j) else Inl (IndexError ''invalid index''))"

text \<open>
  The \<^verbatim>\<open>for i in range(pointers.ExtentCount)\<close> loop that builds the extent list. Record
  \<open>i\<close> itself is reached by offset arithmetic on the buffer; the fields read from the
  structures are plain integers, on which the code asks for \<^verbatim>\<open>.value\<close>.
\<close>

fun decode_loop ::
  "RetrievalPointersBuffer \<Rightarrow> nat list \<Rightarrow> FileExtent list \<Rightarrow> error + FileExtent list" where
  "decode_loop pointers [] extents = Inr extents"
| "decode_loop pointers (i # rest) extents =
     (let extent = Extents pointers i in
      case (if i = 0 then getattr_value (PyInt (StartingVcn pointers))
            else (case Extents_getitem pointers (i - 1) of
                    Inl e \<Rightarrow> Inl e
                  | Inr previous \<Rightarrow> getattr_value (PyInt (NextVcn previous)))) of
        Inl e \<Rightarrow> Inl e
      | Inr start_vcn \<Rightarrow>
     (case getattr_value (PyInt (NextVcn extent)) of
        Inl e \<Rightarrow> Inl e
      | Inr vcn_value \<Rightarrow>
     (case getattr_value (PyInt (Lcn extent)) of
        Inl e \<Rightarrow> Inl e
      | Inr lcn_value \<Rightarrow>
     (case getattr_value (PyInt (NextVcn extent)) of
        Inl e \<Rightarrow> Inl e
      | Inr next_vcn \<Rightarrow>
          decode_loop pointers rest
            (extents @ [\<lparr>vcn = vcn_value, lcn = lcn_value, size = next_vcn - start_vcn\<rparr>])))))"

definition decode_extents :: "RetrievalPointersBuffer \<Rightarrow> error + FileExtent list" where
  "decode_extents pointers = decode_loop pointers [0..<ExtentCount pointers] []"

definition get_retrieval_pointers ::
  "'d kernel32 \<Rightarrow> 'd world \<Rightarrow> NTFSDisk \<Rightarrow> HANDLE \<Rightarrow> ((error + FileExtent list) \<times> 'd world) option" where
  "get_retrieval_pointers os w self file_handle =
     (let input_buffer = \<lparr>InputStartingVcn = 0\<rparr>;
          chunk_size = 1024
      in case query_retrieval_pointers os file_handle input_buffer chunk_size None w of
           None \<Rightarrow> None
         | Some (Inl e, w') \<Rightarrow> Some (Inl e, w')
         | Some (Inr output_buffer, w') \<Rightarrow> Some (decode_extents output_buffer, w'))"

subsection \<open>\<^verbatim>\<open>__exit__\<close>\<close>

text \<open>Python's truth value of a handle: \<^verbatim>\<open>None\<close> and \<open>0\<close> are false.\<close>

definition truthy :: "HANDLE \<Rightarrow> bool" where
  "truthy h = (case h of None \<Rightarrow> False | Some n \<Rightarrow> n \<noteq> 0)"

definition NTFSDisk_exit ::
  "'d kernel32 \<Rightarrow> 'd world \<Rightarrow> NTFSDisk \<Rightarrow> (error + unit) \<times> NTFSDisk \<times> 'd world" where
  "NTFSDisk_exit os w self =
     (if truthy (handle self) then
        (let self = self\<lparr>handle := None\<rparr> in
         case CloseHandle os w (handle self) of
           (ok, w') \<Rightarrow>
             if \<not> ok then (Inl (WinError (get_last_error os w')), self, w')
             else (Inr (), self, w'))
      else (Inr (), self, w))"

subsection \<open>\<^verbatim>\<open>__init__\<close>\<close>









section \<open>The geometry invariant\<close>

text \<open>
  The invariant the specification gives for an opened volume: the base fields are
  positive, the cluster size is the product of sectors per cluster and sector size, and
  the two counts are the floor quotients of the volume size.
\<close>

definition geometry_invariant :: "NTFSDisk \<Rightarrow> bool" where
  "geometry_invariant self \<longleftrightarrow>
     0 < sector_size self \<and> 0 < cluster_size self \<and> 0 < sectors_per_cluster self \<and>
     0 < size_bytes self \<and>
     cluster_size self = sectors_per_cluster self * sector_size self \<and>
     cluster_count self = size_bytes self div cluster_size self \<and>
     sector_count self = size_bytes self div sector_size self"

section \<open>A simulated device\<close>

text \<open>
  A concrete operating system to run the code on: a device holding \<open>sim_bytes\<close> with a
  file pointer that a seek sets and a read advances by the bytes it delivers (the Win32
  behaviour of a synchronous handle), a table of open handles, and a file-system driver
  whose retrieval-pointers reply needs \<open>sim_needed\<close> bytes of output buffer and answers
  a smaller buffer with \<^verbatim>\<open>ERROR_MORE_DATA\<close> (234). Closing a handle that is not open
  fails with \<^verbatim>\<open>ERROR_INVALID_HANDLE\<close> (6). The interpreter can allocate buffers of up to
  \<open>2 ^ 20\<close> bytes.
\<close>

record sim =
  sim_bytes :: "byte list"
  sim_pointer :: int
  sim_open :: "int list"
  sim_last_error :: int
  sim_needed :: int
  sim_reply :: RetrievalPointersBuffer

definition zero_buffer :: RetrievalPointersBuffer where
  "zero_buffer = \<lparr>ExtentCount = 0, StartingVcn = 0, Extents = (\<lambda>i. \<lparr>NextVcn = 0, Lcn = 0\<rparr>)\<rparr>"

definition sim_os :: "sim kernel32" where
  "sim_os =
     \<lparr>k32_CreateFileW = (\<lambda>d path. (Some 7, d\<lparr>sim_open := 7 # sim_open d\<rparr>)),
      k32_GetDiskFreeSpaceA = (\<lambda>d path. ((True, 1, 2), d)),
      k32_DeviceIoControl_geometry = (\<lambda>d h.
        ((True, \<lparr>Cylinders = 1, MediaType = 12, TracksPerCylinder = 1,
                  SectorsPerTrack = 4, BytesPerSector = 2\<rparr>), d)),
      k32_DeviceIoControl_length = (\<lambda>d h. ((True, \<lparr>Length = int (length (sim_bytes d))\<rparr>), d)),
      k32_DeviceIoControl_pointers = (\<lambda>d h inp out_size.
        if out_size < sim_needed d
        then ((False, zero_buffer, nat (sim_needed d)), d\<lparr>sim_last_error := 234\<rparr>)
        else ((True, sim_reply d, nat (sim_needed d)), d)),
      k32_CloseHandle = (\<lambda>d h.
        case h of
          None \<Rightarrow> (False, d\<lparr>sim_last_error := 6\<rparr>)
        | Some n \<Rightarrow>
            if n \<in> set (sim_open d) then (True, d\<lparr>sim_open := removeAll n (sim_open d)\<rparr>)
            else (False, d\<lparr>sim_last_error := 6\<rparr>)),
      k32_SetFilePointer = (\<lambda>d h off. (nat off, d\<lparr>sim_pointer := off\<rparr>)),
      k32_ReadFile = (\<lambda>d h n.
        let payload = take (nat n) (drop (nat (sim_pointer d)) (sim_bytes d))
        in ((True, payload), d\<lparr>sim_pointer := sim_pointer d + int (length payload)\<rparr>)),
      k32_GetLastError = sim_last_error,
      interp_alloc = (\<lambda>d n. if n \<le> 2 ^ 20 then Allocated else OutOfMemory)\<rparr>"

text \<open>A driver that answers every query with \<^verbatim>\<open>ERROR_MORE_DATA\<close>.\<close>

definition sim_os_always_more_data :: "sim kernel32" where
  "sim_os_always_more_data =
     sim_os\<lparr>k32_DeviceIoControl_pointers := (\<lambda>d h inp out_size.
       ((False, zero_buffer, nat (2 * out_size)), d\<lparr>sim_last_error := 234\<rparr>))\<rparr>"

text \<open>A driver that refuses every query with \<^verbatim>\<open>ERROR_ACCESS_DENIED\<close> (5).\<close>

definition sim_os_access_denied :: "sim kernel32" where
  "sim_os_access_denied =
     sim_os\<lparr>k32_DeviceIoControl_pointers := (\<lambda>d h inp out_size.
       ((False, zero_buffer, 0), d\<lparr>sim_last_error := 5\<rparr>))\<rparr>"

text \<open>
  The file of the example: logical clusters 100 to 149, then 500 to 519.
\<close>

definition example_reply :: RetrievalPointersBuffer where
  "example_reply =
     \<lparr>ExtentCount = 2, StartingVcn = 0,
      Extents = (\<lambda>i. if i = 0 then \<lparr>NextVcn = 50, Lcn = 100\<rparr>
                      else if i = 1 then \<lparr>NextVcn = 70, Lcn = 500\<rparr>
                      else \<lparr>NextVcn = 0, Lcn = 0\<rparr>)\<rparr>"

text \<open>
  An eight-byte volume of four clusters of one two-byte sector each, opened under
  handle 7, and the object of a disk opened on it.
\<close>

definition sim_device :: sim where
  "sim_device =
     \<lparr>sim_bytes = [1, 2, 3, 4, 5, 6, 7, 8], sim_pointer = 0, sim_open = [7],
      sim_last_error = 0, sim_needed = 48, sim_reply = example_reply\<rparr>"

definition sim_world :: "sim world" where
  "sim_world = \<lparr>device = sim_device, calls = []\<rparr>"

definition sim_disk :: NTFSDisk where
  "sim_disk =
     \<lparr>disk_path = [CHR 0x5C, CHR 0x5C, CHR ''.'', CHR 0x5C] @ ''C:'', handle = Some 7,
      size_bytes = 8, cluster_size = 2, sector_size = 2, sectors_per_cluster = 1,
      cluster_count = 4, sector_count = 4, current_position = 0\<rparr>"

section \<open>Facts about the boundary and the simulated device\<close>

lemma SetFilePointer_calls:
  "SetFilePointer os w h off = (r, w') \<Longrightarrow> calls w' = calls w @ [SetFilePointer_call h off r]"
  by (auto simp: SetFilePointer_def split: prod.splits)

lemma DeviceIoControl_pointers_calls:
  "DeviceIoControl_pointers os w fh inp out_size = ((ok, buf, n), w') \<Longrightarrow>
     calls w' = calls w @ [DeviceIoControl_call fh 0x00090073 out_size ok]"
  by (auto simp: DeviceIoControl_pointers_def split: prod.splits)

lemma floor_quotient_scale:
  assumes "(a::int) \<le> S div (p * s)" "0 < p" "0 < s"
  shows "a * p \<le> S div s"
proof -
  have "a * (p * s) \<le> (S div (p * s)) * (p * s)"
    using assms by (simp add: mult_right_mono)
  also have "\<dots> \<le> S"
    using assms
    by (metis mult.commute mult_pos_pos pos_mod_sign minus_mod_eq_mult_div diff_le_eq
        le_add_same_cancel1)
  finally have "(a * p) * s \<le> S" by (simp add: mult.assoc)
  then have "((a * p) * s) div s \<le> S div s"
    using assms(3) by (rule zdiv_mono1)
  then show ?thesis using assms(3) by simp
qed

lemmas sim_defs = sim_os_def sim_world_def sim_device_def sim_disk_def

lemmas shim_defs = SetFilePointer_def ReadFile_def get_last_error_def CloseHandle_def
  DeviceIoControl_pointers_def

text \<open>
  Reading cluster 1 of the simulated volume from a freshly opened disk: the seek is
  issued, then building the arguments of the read raises.
\<close>

lemma sim_read_1_1:
  "read_clusters sim_os sim_world sim_disk 1 1 =
     (Inl (TypeError ''byref() argument must be a ctypes instance, not bytes''),
      sim_disk\<lparr>current_position := 2\<rparr>,
      \<lparr>device = sim_device\<lparr>sim_pointer := 2\<rparr>,
       calls = [SetFilePointer_call (Some 7) 2 2]\<rparr>)"
  by (simp add: read_clusters_def bytes_def byref_def Let_def sim_defs shim_defs)

text \<open>The same read issued again, on the object and the world the first one left.\<close>

lemma sim_read_1_1_again:
  "read_clusters sim_os
     \<lparr>device = sim_device\<lparr>sim_pointer := 2\<rparr>, calls = [SetFilePointer_call (Some 7) 2 2]\<rparr>
     (sim_disk\<lparr>current_position := 2\<rparr>) 1 1 =
     (Inl (TypeError ''byref() argument must be a ctypes instance, not bytes''),
      sim_disk\<lparr>current_position := 2\<rparr>,
      \<lparr>device = sim_device\<lparr>sim_pointer := 2\<rparr>, calls = [SetFilePointer_call (Some 7) 2 2]\<rparr>)"
  by (simp add: read_clusters_def bytes_def byref_def Let_def sim_defs shim_defs)

section \<open>\<^verbatim>\<open>read_clusters\<close>\<close>


lemma read_clusters_no_read:
  "ReadFile_call h n ok k \<notin> set (drop (length (calls w))
       (calls (snd (snd (read_clusters os w self cluster clusters)))))"
  by (auto simp: read_clusters_def bytes_def byref_def Let_def SetFilePointer_def
      split: prod.splits sum.splits allocation.splits)

text \<open>
  The only assignment to \<open>current_position\<close> is the one that follows the seek: a call
  leaves it unchanged or at the byte offset of the first cluster requested.
\<close>

lemma read_clusters_cursor:
  "current_position (fst (snd (read_clusters os w self cluster clusters)))
       = current_position self
   \<or> current_position (fst (snd (read_clusters os w self cluster clusters)))
       = cluster * sectors_per_cluster self * sector_size self"
  by (auto simp: read_clusters_def bytes_def byref_def Let_def
      split: prod.splits sum.splits allocation.splits)

text \<open>
  A request outside the volume, or of no clusters, ends in an exception with the object
  and the world as they were: no call reaches the operating system.
\<close>

lemma read_clusters_invalid_no_io:
  assumes "clusters \<le> 0 \<or> cluster < 0 \<or> cluster + clusters > cluster_count self"
  shows "\<exists>e. read_clusters os w self cluster clusters = (Inl e, self, w)"
  using assms by (auto simp: read_clusters_def bytes_def Let_def split: allocation.splits)



text \<open>
  Claim C5. The claim wants two successive identical reads to return the same bytes,
  the second without a seek. On the simulated volume both \<^verbatim>\<open>read_clusters(1, 1)\<close> calls
  raise \<^verbatim>\<open>TypeError\<close> and return no bytes; the first issues the seek, the second no call
  at all.
\<close>

theorem repeated_read_raises:
  "(case read_clusters sim_os sim_world sim_disk 1 1 of
      (r1, self1, w1) \<Rightarrow>
        (case read_clusters sim_os w1 self1 1 1 of
           (r2, self2, w2) \<Rightarrow>
             r1 = Inl (TypeError ''byref() argument must be a ctypes instance, not bytes'')
             \<and> r2 = Inl (TypeError ''byref() argument must be a ctypes instance, not bytes'')
             \<and> calls w1 = [SetFilePointer_call (Some 7) 2 2]
             \<and> w2 = w1))"
  by (simp add: sim_read_1_1 sim_read_1_1_again)

text \<open>
  Claim C7. The claim wants every request outside the volume to raise the range error.
  On the simulated volume of four clusters \<^verbatim>\<open>read_clusters(0, 2 ** 62)\<close> raises
  \<^verbatim>\<open>OverflowError\<close>: the buffer of \<open>2 ^ 63\<close> bytes is requested from \<^verbatim>\<open>bytes\<close> before
  the range is checked. The object and the world are left as they were.
\<close>

theorem huge_count_overflow_error:
  "read_clusters sim_os sim_world sim_disk 0 (2 ^ 62) =
     (Inl (OverflowError ''cannot fit int into an index-sized integer''), sim_disk, sim_world)
   \<and> 0 + 2 ^ 62 > cluster_count sim_disk"
  by (simp add: read_clusters_def bytes_def Let_def sim_disk_def)

text \<open>
  Claim C10. Under the geometry invariant, a request that passes the cluster-level
  checks also passes the checks restated in sectors: the sector count is positive, the
  first sector is not negative, the sector range ends within \<open>sector_count\<close>, and
  \<^verbatim>\<open>read_clusters\<close> raises neither of the two sector errors.
\<close>

theorem sector_check_redundant:
  assumes "geometry_invariant self"
      and "0 < clusters" "0 \<le> cluster" "cluster + clusters \<le> cluster_count self"
  shows "0 < clusters * sectors_per_cluster self
       \<and> 0 \<le> cluster * sectors_per_cluster self
       \<and> cluster * sectors_per_cluster self + clusters * sectors_per_cluster self
           \<le> sector_count self
       \<and> fst (read_clusters os w self cluster clusters)
           \<noteq> Inl (ValueError ''Number of sectors must be greater than 0'')
       \<and> fst (read_clusters os w self cluster clusters)
           \<noteq> Inl (ValueError ''Invalid sector range, out of bounds'')"
proof -
  let ?p = "sectors_per_cluster self" and ?s = "sector_size self"
  have pos: "0 < ?p" "0 < ?s" using assms(1) by (simp_all add: geometry_invariant_def)
  have "cluster + clusters \<le> size_bytes self div (?p * ?s)"
    using assms(1,4) by (simp add: geometry_invariant_def)
  then have "(cluster + clusters) * ?p \<le> size_bytes self div ?s"
    using pos by (rule floor_quotient_scale)
  then have range: "cluster * ?p + clusters * ?p \<le> sector_count self"
    using assms(1) by (simp add: geometry_invariant_def distrib_right)
  have sectors: "0 < clusters * ?p" using assms(2) pos by simp
  have sector: "0 \<le> cluster * ?p" using assms(3) pos by simp
  show ?thesis
    using range sectors sector
    by (auto simp: read_clusters_def bytes_def byref_def Let_def
        split: prod.splits sum.splits allocation.splits)
qed

theorem sector_check_redundant_witness:
  "geometry_invariant sim_disk \<and> 0 < (1::int) \<and> (0::int) \<le> 1
   \<and> (1::int) + 1 \<le> cluster_count sim_disk
   \<and> 0 < 1 * sectors_per_cluster sim_disk
   \<and> 1 * sectors_per_cluster sim_disk + 1 * sectors_per_cluster sim_disk
       \<le> sector_count sim_disk
   \<and> fst (read_clusters sim_os sim_world sim_disk 1 1)
       \<noteq> Inl (ValueError ''Invalid sector range, out of bounds'')"
proof -
  have g: "geometry_invariant sim_disk" by (simp add: geometry_invariant_def sim_disk_def)
  have c: "(1::int) + 1 \<le> cluster_count sim_disk" by (simp add: sim_disk_def)
  show ?thesis using sector_check_redundant [OF g _ _ c, of sim_os sim_world] g c by simp
qed

section \<open>\<^verbatim>\<open>get_retrieval_pointers\<close>\<close>

text \<open>
  Entered with \<open>output_buffer_size\<close> unbound, the loop ends after its first query: a
  success leaves it, \<^verbatim>\<open>ERROR_MORE_DATA\<close> reads the unbound local, any other status
  raises.
\<close>

lemma query_unbound:
  "query_retrieval_pointers os fh inp cs None w =
     (case DeviceIoControl_pointers os w fh inp cs of
        ((ok, buf, n), w') \<Rightarrow>
          if ok then Some (Inr buf, w')
          else if get_last_error os w' = 234
            then Some (Inl (UnboundLocalError ''output_buffer_size''), w')
            else Some (Inl (WinError (get_last_error os w')), w'))"
  by (subst query_retrieval_pointers.simps) (simp add: Let_def split: prod.splits)

lemma get_retrieval_pointers_returns:
  "\<exists>y. get_retrieval_pointers os w self fh = Some y"
  by (auto simp: get_retrieval_pointers_def query_unbound Let_def split: prod.splits sum.splits)

lemma first_more_data:
  assumes "DeviceIoControl_pointers os w fh \<lparr>InputStartingVcn = 0\<rparr> 1024
             = ((False, buf, n), w')"
      and "get_last_error os w' = 234"
  shows "get_retrieval_pointers os w self fh
           = Some (Inl (UnboundLocalError ''output_buffer_size''), w')"
  using assms by (simp add: get_retrieval_pointers_def query_unbound)

lemma sim_query:
  "DeviceIoControl_pointers sim_os sim_world (Some 9) \<lparr>InputStartingVcn = 0\<rparr> 1024 =
     ((True, example_reply, 48),
      \<lparr>device = sim_device, calls = [DeviceIoControl_call (Some 9) 0x00090073 1024 True]\<rparr>)"
  by (simp add: sim_defs shim_defs)

lemma sim_query_denied:
  "DeviceIoControl_pointers sim_os_access_denied sim_world (Some 9)
       \<lparr>InputStartingVcn = 0\<rparr> 1024 =
     ((False, zero_buffer, 0),
      \<lparr>device = sim_device\<lparr>sim_last_error := 5\<rparr>,
       calls = [DeviceIoControl_call (Some 9) 0x00090073 1024 False]\<rparr>)"
  by (simp add: sim_os_access_denied_def sim_defs shim_defs)

text \<open>
  The decoding of a reply with at least one record raises at its first \<^verbatim>\<open>.value\<close>, on
  the header's \<open>StartingVcn\<close>; an empty reply decodes to the empty list.
\<close>

lemma decode_nonempty:
  "0 < ExtentCount pointers \<Longrightarrow> decode_extents pointers = Inl (AttributeError ''value'')"
  by (simp add: decode_extents_def upt_conv_Cons getattr_value_def Let_def)

lemma decode_empty:
  "ExtentCount pointers = 0 \<Longrightarrow> decode_extents pointers = Inr []"
  by (simp add: decode_extents_def)

lemma decode_example:
  "decode_extents example_reply = Inl (AttributeError ''value'')"
  by (rule decode_nonempty) (simp add: example_reply_def)

text \<open>
  Claim C2. The claim wants a query answered \<^verbatim>\<open>ERROR_MORE_DATA\<close> to be retried with a
  buffer of \<open>max (previous size * 2) (reported size)\<close>, so that a driver needing two
  attempts is served. With a driver whose reply needs 2048 bytes, the first query (1024
  bytes) is answered \<^verbatim>\<open>ERROR_MORE_DATA\<close> and the call raises \<^verbatim>\<open>UnboundLocalError\<close> for
  \<open>output_buffer_size\<close>; no second query is issued.
\<close>

theorem two_attempt_driver_unbound_local:
  "get_retrieval_pointers sim_os (sim_world\<lparr>device := sim_device\<lparr>sim_needed := 2048\<rparr>\<rparr>)
       sim_disk (Some 9) =
     Some (Inl (UnboundLocalError ''output_buffer_size''),
           \<lparr>device = sim_device\<lparr>sim_needed := 2048, sim_last_error := 234\<rparr>,
            calls = [DeviceIoControl_call (Some 9) 0x00090073 1024 False]\<rparr>)"
  by (simp add: get_retrieval_pointers_def query_unbound sim_defs shim_defs)

text \<open>
  Claim C3, as amended. The code has no retry bound and no exhaustion error. When the
  driver answers the query with success or with a failure other than
  \<^verbatim>\<open>ERROR_MORE_DATA\<close>, \<^verbatim>\<open>get_retrieval_pointers\<close> returns after that single query: a
  failure is raised as the \<^verbatim>\<open>WinError\<close> of the status code, a success goes on to the
  decoding of the reply.
\<close>

theorem resolve_single_query:
  assumes "DeviceIoControl_pointers os w fh \<lparr>InputStartingVcn = 0\<rparr> 1024
             = ((ok, buf, n), w')"
      and "ok \<or> get_last_error os w' \<noteq> 234"
  shows "get_retrieval_pointers os w self fh =
           Some (if ok then decode_extents buf
                 else Inl (WinError (get_last_error os w')), w')
       \<and> calls w' = calls w @ [DeviceIoControl_call fh 0x00090073 1024 ok]"
  using assms DeviceIoControl_pointers_calls [OF assms(1)]
  by (auto simp: get_retrieval_pointers_def query_unbound)

theorem resolve_single_query_witness:
  "get_retrieval_pointers sim_os_access_denied sim_world sim_disk (Some 9) =
     Some (Inl (WinError 5),
           \<lparr>device = sim_device\<lparr>sim_last_error := 5\<rparr>,
            calls = [DeviceIoControl_call (Some 9) 0x00090073 1024 False]\<rparr>)
   \<and> get_retrieval_pointers sim_os sim_world sim_disk (Some 9) =
     Some (Inl (AttributeError ''value''),
           \<lparr>device = sim_device,
            calls = [DeviceIoControl_call (Some 9) 0x00090073 1024 True]\<rparr>)"
  using resolve_single_query [OF sim_query_denied, of sim_disk]
    resolve_single_query [OF sim_query, of sim_disk]
  by (simp add: get_last_error_def sim_os_access_denied_def sim_os_def decode_example)

text \<open>
  Claim C3 as stated fails: with a driver that answers every query with
  \<^verbatim>\<open>ERROR_MORE_DATA\<close> the call ends after one query and no retry, and the error is
  \<^verbatim>\<open>UnboundLocalError\<close>, not an exhaustion error.
\<close>

theorem always_more_data_unbound_local:
  "get_retrieval_pointers sim_os_always_more_data sim_world sim_disk (Some 9) =
     Some (Inl (UnboundLocalError ''output_buffer_size''),
           \<lparr>device = sim_device\<lparr>sim_last_error := 234\<rparr>,
            calls = [DeviceIoControl_call (Some 9) 0x00090073 1024 False]\<rparr>)"
  by (simp add: get_retrieval_pointers_def query_unbound sim_os_always_more_data_def
      sim_defs shim_defs)

text \<open>
  Claim C6. The claim wants the reply decoded record by record, and the file at logical
  clusters 100 to 149 and 500 to 519 resolved to the extents (50, 100, 50) and
  (70, 500, 20). With the driver returning exactly that reply (two records, starting
  virtual cluster 0), \<^verbatim>\<open>get_retrieval_pointers\<close> raises \<^verbatim>\<open>AttributeError\<close>: the fields it
  reads from the structures are plain integers, and it asks them for \<^verbatim>\<open>.value\<close>.
\<close>

theorem example_decode_attribute_error:
  "get_retrieval_pointers sim_os sim_world sim_disk (Some 9) =
     Some (Inl (AttributeError ''value''),
           \<lparr>device = sim_device,
            calls = [DeviceIoControl_call (Some 9) 0x00090073 1024 True]\<rparr>)
   \<and> ExtentCount example_reply = 2 \<and> StartingVcn example_reply = 0
   \<and> Extents example_reply 0 = \<lparr>NextVcn = 50, Lcn = 100\<rparr>
   \<and> Extents example_reply 1 = \<lparr>NextVcn = 70, Lcn = 500\<rparr>"
  by (simp add: get_retrieval_pointers_def query_unbound sim_query decode_example)
    (simp add: example_reply_def)

section \<open>\<^verbatim>\<open>__exit__\<close> and \<^verbatim>\<open>__init__\<close>\<close>

text \<open>
  \<^verbatim>\<open>__exit__\<close> on an object with a handle: the one call it makes is
  \<^verbatim>\<open>CloseHandle(None)\<close>, because the attribute is overwritten before it is passed. On
  an object whose handle is already \<^verbatim>\<open>None\<close> it does nothing.
\<close>

lemma exit_closes_None:
  assumes "truthy (handle self)"
      and "NTFSDisk_exit os w self = (r, self', w')"
  shows "\<exists>ok. calls w' = calls w @ [CloseHandle_call None ok] \<and> handle self' = None"
  using assms
  by (auto simp: NTFSDisk_exit_def CloseHandle_def Let_def split: prod.splits if_splits)

lemma exit_closed_noop:
  "handle self = None \<Longrightarrow> NTFSDisk_exit os w self = (Inr (), self, w)"
  by (simp add: NTFSDisk_exit_def truthy_def)

text \<open>
  Claim C8. The claim wants \<^verbatim>\<open>__exit__\<close> to release the device handle with
  \<^verbatim>\<open>CloseHandle\<close>. On the simulated device, where handle 7 is open, \<^verbatim>\<open>__exit__\<close> calls
  \<^verbatim>\<open>CloseHandle(None)\<close>, which fails with \<^verbatim>\<open>ERROR_INVALID_HANDLE\<close>, raises the
  \<^verbatim>\<open>WinError\<close>, and leaves handle 7 open.
\<close>

theorem exit_leaks_handle:
  "NTFSDisk_exit sim_os sim_world sim_disk =
     (Inl (WinError 6), sim_disk\<lparr>handle := None\<rparr>,
      \<lparr>device = sim_device\<lparr>sim_last_error := 6\<rparr>, calls = [CloseHandle_call None False]\<rparr>)
   \<and> sim_open (sim_device\<lparr>sim_last_error := 6\<rparr>) = [7]"
  by (simp add: NTFSDisk_exit_def truthy_def Let_def sim_defs shim_defs)


end
